theory Spec2Isabelle
  imports Main "HOL-Library.Word" "HOL-Library.Code_Target_Nat"
begin

section \<open>Machine model\<close>

text \<open>
  The allocator of \<^verbatim>\<open>src/alloc.c\<close> on an LP64 target. \<^verbatim>\<open>size_t\<close> is a 64-bit word and
  \<^verbatim>\<open>int\<close> a 32-bit word, and their arithmetic wraps. An address is a natural number
  and the null pointer is the address 0; pointer arithmetic is exact (an overflow of
  it has no meaning in C, and no block of a heap reaches the top of the address
  space).
\<close>

type_synonym addr = nat
type_synonym size_t = "64 word"
type_synonym cint = "32 word"

abbreviation NULL :: addr where
  "NULL \<equiv> 0"

definition MAGIC_NUMBER :: cint where
  "MAGIC_NUMBER = 0x01234567"

text \<open>
  Modelled from the spec: \<^verbatim>\<open>alloc.h\<close>, which declares \<^verbatim>\<open>free_block\<close>, is not among
  the sources. Section 3 of the specification gives the header two fields, \<^verbatim>\<open>size\<close>
  (a byte count) and \<^verbatim>\<open>next\<close> (a link to another header); on the LP64 target these
  are two 8-byte fields, so \<^verbatim>\<open>sizeof(free_block)\<close> is 16.
\<close>

definition sizeof_free_block :: size_t where
  "sizeof_free_block = 16"

definition sizeof_int :: size_t where
  "sizeof_int = 4"

text \<open>\<open>hdr\<close> is \<^verbatim>\<open>sizeof(free_block)\<close> as a distance between addresses.\<close>

definition hdr :: nat where
  "hdr = unat sizeof_free_block"

text \<open>
  The store is split by the type of the object accessed: the \<^verbatim>\<open>size\<close> and \<^verbatim>\<open>next\<close>
  fields of the header at an address, the \<^verbatim>\<open>int\<close> at an address (the sentinels), and
  the bytes of the payloads. Objects of different types are kept apart, also when
  their addresses coincide. They coincide in one place: the sentinel of a block that
  \<^verbatim>\<open>split\<close> has cut from a larger one lies at the address where the header of the
  remainder begins, so that in the memory of the program it is the low four bytes of
  the \<^verbatim>\<open>size\<close> field of that header. The example heaps and the runs of the sections
  below that release such a block give the block behind it the size 19088743, which is
  \<^verbatim>\<open>0x01234567\<close>, and start from a block of more than \<open>2 ^ 32\<close> bytes where several
  blocks are cut: what they state is the same when the two objects are the same bytes.
  \<^verbatim>\<open>HEAD\<close> is the global of line 12. The remaining fields are
  the environment: the program break, the policy of the operating system (whether
  it moves the break at \<open>b\<close> by \<open>n\<close>), the number of calls of \<^verbatim>\<open>sbrk\<close> so far, and the
  lines written to the error stream.
\<close>

record heap =
  HEAD :: addr
  size_f :: "addr \<Rightarrow> size_t"
  next_f :: "addr \<Rightarrow> addr"
  int_at :: "addr \<Rightarrow> cint"
  byte_at :: "addr \<Rightarrow> 8 word"
  brk :: addr
  os_grants :: "addr \<Rightarrow> size_t \<Rightarrow> bool"
  sbrk_calls :: nat
  stderr :: "string list"

text \<open>
  Modelled from the spec: the heap-growth primitive of section 6 (\<^verbatim>\<open>sbrk\<close> of
  \<^verbatim>\<open>unistd.h\<close>, whose argument is an \<^verbatim>\<open>intptr_t\<close>). It moves the break by the requested
  byte count and returns the previous break, or the failure value \<^verbatim>\<open>(void *)-1\<close>, the
  address \<open>sbrk_failed\<close>, when the operating system refuses.
\<close>

definition sbrk_failed :: addr where
  "sbrk_failed = 2 ^ 64 - 1"

definition sbrk :: "heap \<Rightarrow> size_t \<Rightarrow> heap \<times> addr" where
  "sbrk s incr =
     (if os_grants s (brk s) incr
      then (s\<lparr>brk := nat (int (brk s) + sint incr), sbrk_calls := Suc (sbrk_calls s)\<rparr>, brk s)
      else (s\<lparr>sbrk_calls := Suc (sbrk_calls s)\<rparr>, sbrk_failed))"

definition fprintf_stderr :: "heap \<Rightarrow> string \<Rightarrow> heap" where
  "fprintf_stderr s msg = s\<lparr>stderr := stderr s @ [msg]\<rparr>"

section \<open>The allocator\<close>

text \<open>
  \<^verbatim>\<open>split\<close> (lines 21-40). The parameter \<^verbatim>\<open>size\<close> has type \<^verbatim>\<open>int\<close>: where it meets a
  \<^verbatim>\<open>size_t\<close> it is converted by sign extension (\<open>scast\<close>), and added to a pointer it
  counts with its sign (\<open>sint\<close>).
\<close>

definition split :: "heap \<Rightarrow> addr \<Rightarrow> cint \<Rightarrow> heap \<times> addr" where
  "split s block sz =
     (if size_f s block < scast sz + sizeof_free_block then (s, NULL)
      else
        let new_block = nat (int block + sint sz) + hdr;
            s1 = s\<lparr>size_f := (size_f s)(new_block := size_f s block - scast sz - sizeof_free_block)\<rparr>;
            s2 = s1\<lparr>next_f := (next_f s1)(new_block := next_f s1 block)\<rparr>;
            s3 = s2\<lparr>size_f := (size_f s2)(block := scast sz)\<rparr>;
            s4 = s3\<lparr>next_f := (next_f s3)(block := new_block)\<rparr>
        in (s4, block))"

text \<open>
  The loops of \<^verbatim>\<open>find_prev\<close> (lines 48-57) and \<^verbatim>\<open>find_next\<close> (lines 65-75) follow the
  \<^verbatim>\<open>next\<close> links from \<^verbatim>\<open>HEAD\<close>. On a cyclic list they need not end, so they are partial
  functions: \<open>None\<close> is the run that never returns.
\<close>

partial_function (option) find_prev_loop :: "heap \<Rightarrow> addr \<Rightarrow> addr \<Rightarrow> addr option" where
  "find_prev_loop s block cur =
     (if cur \<noteq> NULL then
        (let nxt = cur + unat (size_f s cur) + hdr in
         if nxt = block then Some cur
         else find_prev_loop s block (next_f s cur))
      else Some NULL)"

declare find_prev_loop.simps [code]

definition find_prev :: "heap \<Rightarrow> addr \<Rightarrow> addr option" where
  "find_prev s block = find_prev_loop s block (HEAD s)"

partial_function (option) find_next_loop :: "heap \<Rightarrow> addr \<Rightarrow> addr \<Rightarrow> addr option" where
  "find_next_loop s block_end cur =
     (if cur \<noteq> NULL then
        (if cur = block_end then Some cur
         else find_next_loop s block_end (next_f s cur))
      else Some NULL)"

declare find_next_loop.simps [code]

definition find_next :: "heap \<Rightarrow> addr \<Rightarrow> addr option" where
  "find_next s block =
     find_next_loop s (block + unat (size_f s block) + hdr) (HEAD s)"

text \<open>
  \<^verbatim>\<open>coalesce\<close> (lines 103-137): the two searches, then the merge with the previous
  neighbour (lines 112-123) and the merge with the next one (lines 126-134).
\<close>

definition merge_prev :: "heap \<Rightarrow> addr \<Rightarrow> addr \<Rightarrow> heap \<times> addr" where
  "merge_prev s block prev =
     (if prev \<noteq> NULL then
        (let end_of_prev = prev + unat (size_f s prev) + hdr in
         if end_of_prev = block then
           (let s1 = s\<lparr>size_f := (size_f s)(prev := size_f s prev + (size_f s block + sizeof_free_block))\<rparr>;
                s2 = (if next_f s1 prev = block
                      then s1\<lparr>next_f := (next_f s1)(prev := next_f s1 block)\<rparr>
                      else s1)
            in (s2, prev))
         else (s, block))
      else (s, block))"

definition merge_next :: "heap \<Rightarrow> addr \<Rightarrow> addr \<Rightarrow> heap" where
  "merge_next s block nxt =
     (if nxt \<noteq> NULL then
        (let end_of_block = block + unat (size_f s block) + hdr in
         if end_of_block = nxt then
           (let s1 = s\<lparr>size_f := (size_f s)(block := size_f s block + (size_f s nxt + sizeof_free_block))\<rparr>
            in s1\<lparr>next_f := (next_f s1)(block := next_f s1 nxt)\<rparr>)
         else s)
      else s)"

definition coalesce :: "heap \<Rightarrow> addr \<Rightarrow> (heap \<times> addr) option" where
  "coalesce s block =
     (if block = NULL then Some (s, NULL)
      else
        (case find_prev s block of
           None \<Rightarrow> None
         | Some prev \<Rightarrow>
             (case find_next s block of
                None \<Rightarrow> None
              | Some nxt \<Rightarrow>
                  (let (s1, block1) = merge_prev s block prev
                   in Some (merge_next s1 block1 nxt, block1)))))"

text \<open>
  \<^verbatim>\<open>do_alloc\<close> (lines 145-153). In the source text the brace that opens the failure
  branch at line 147 is not closed before the header is initialised: the only
  closing brace that follows is the one at line 153. \<open>do_alloc_as_written\<close> is that
  text: lines 149-152 stand behind the \<^verbatim>\<open>return NULL;\<close> of the failure branch and
  are never reached, and when \<^verbatim>\<open>sbrk\<close> succeeds control reaches the closing brace
  without a \<^verbatim>\<open>return\<close> (the result \<open>None\<close>). \<open>do_alloc\<close> is the function that the
  layout of the lines, the comment above them and the callers describe, with the
  failure branch closed after its \<^verbatim>\<open>return NULL;\<close>; it is the one the callers below
  use.
\<close>

definition do_alloc_as_written :: "heap \<Rightarrow> size_t \<Rightarrow> heap \<times> addr option" where
  "do_alloc_as_written s sz =
     (let (s1, ptr) = sbrk s (sz + sizeof_free_block + sizeof_int) in
      if ptr = sbrk_failed then (s1, Some NULL)
      else (s1, None))"

definition do_alloc :: "heap \<Rightarrow> size_t \<Rightarrow> heap \<times> addr" where
  "do_alloc s sz =
     (let (s1, ptr) = sbrk s (sz + sizeof_free_block + sizeof_int) in
      if ptr = sbrk_failed then (s1, NULL)
      else
        let block = ptr;
            s2 = s1\<lparr>size_f := (size_f s1)(block := sz)\<rparr>;
            s3 = s2\<lparr>next_f := (next_f s2)(block := NULL)\<rparr>
        in (s3, block))"

text \<open>
  \<^verbatim>\<open>tumalloc\<close> (lines 162-221). Lines 164-173 and lines 211-220 are the same
  statements, the growth of the heap by a fresh block: \<open>tumalloc_grow\<close>. The loop of
  lines 179-208 is \<open>tumalloc_loop\<close>, which goes on to lines 211-220 when it runs off
  the end of the list. The call of \<^verbatim>\<open>split\<close> converts the \<^verbatim>\<open>size_t\<close> to \<^verbatim>\<open>int\<close>
  (\<open>ucast\<close> keeps the low 32 bits).
\<close>

definition tumalloc_grow :: "heap \<Rightarrow> size_t \<Rightarrow> heap \<times> addr" where
  "tumalloc_grow s sz =
     (let (s1, new_block) = do_alloc s sz in
      if new_block = NULL
      then (fprintf_stderr s1 ''Allocation failed in do_alloc'', NULL)
      else
        (s1\<lparr>int_at := (int_at s1)(new_block + hdr + unat sz := MAGIC_NUMBER)\<rparr>,
         new_block + hdr))"

partial_function (option) tumalloc_loop ::
    "heap \<Rightarrow> size_t \<Rightarrow> addr \<Rightarrow> addr \<Rightarrow> (heap \<times> addr) option" where
  "tumalloc_loop s sz cur prev =
     (if cur \<noteq> NULL then
        (if size_f s cur \<ge> sz then
           (if size_f s cur < sz + sizeof_free_block
            then tumalloc_loop s sz (next_f s cur) cur
            else
              (let (s1, header) = split s cur (ucast sz) in
               if header = NULL
               then Some (fprintf_stderr s1 ''Split failed in tumalloc'', NULL)
               else
                 (let s2 = (if prev \<noteq> NULL
                            then s1\<lparr>next_f := (next_f s1)(prev := next_f s1 cur)\<rparr>
                            else s1\<lparr>HEAD := next_f s1 cur\<rparr>);
                      s3 = s2\<lparr>size_f := (size_f s2)(header := sz)\<rparr>;
                      s4 = s3\<lparr>int_at := (int_at s3)(header + hdr + unat sz := MAGIC_NUMBER)\<rparr>
                  in Some (s4, header + hdr))))
         else tumalloc_loop s sz (next_f s cur) cur)
      else Some (tumalloc_grow s sz))"

declare tumalloc_loop.simps [code]

definition tumalloc :: "heap \<Rightarrow> size_t \<Rightarrow> (heap \<times> addr) option" where
  "tumalloc s sz =
     (if HEAD s = NULL then Some (tumalloc_grow s sz)
      else tumalloc_loop s sz (HEAD s) NULL)"

text \<open>
  \<^verbatim>\<open>memset\<close> and \<^verbatim>\<open>memcpy\<close> of \<^verbatim>\<open>string.h\<close> on the payload bytes; the \<open>n\<close> bytes at
  \<open>dst\<close> are the addresses from \<open>dst\<close> up to, and without, \<open>dst + n\<close>.
\<close>

definition memset :: "heap \<Rightarrow> addr \<Rightarrow> 8 word \<Rightarrow> size_t \<Rightarrow> heap" where
  "memset s dst c n =
     s\<lparr>byte_at := (\<lambda>x. if dst \<le> x \<and> x < dst + unat n then c else byte_at s x)\<rparr>"

definition memcpy :: "heap \<Rightarrow> addr \<Rightarrow> addr \<Rightarrow> size_t \<Rightarrow> heap" where
  "memcpy s dst src n =
     s\<lparr>byte_at := (\<lambda>x. if dst \<le> x \<and> x < dst + unat n
                         then byte_at s (src + (x - dst)) else byte_at s x)\<rparr>"

text \<open>\<^verbatim>\<open>tucalloc\<close> (lines 231-238).\<close>

definition tucalloc :: "heap \<Rightarrow> size_t \<Rightarrow> size_t \<Rightarrow> (heap \<times> addr) option" where
  "tucalloc s num sz =
     (let total_size = num * sz in
      case tumalloc s total_size of
        None \<Rightarrow> None
      | Some (s1, ptr) \<Rightarrow>
          if ptr \<noteq> NULL then Some (memset s1 ptr 0 total_size, ptr)
          else Some (s1, ptr))"

text \<open>
  \<^verbatim>\<open>tufree\<close> (lines 270-289). \<^verbatim>\<open>abort()\<close> ends the process: the outcome \<open>Abort\<close>, with
  the heap as it was left. \<open>push_front\<close> is lines 279-282.
\<close>

datatype 'a outcome = Return heap 'a | Abort heap

definition push_front :: "heap \<Rightarrow> addr \<Rightarrow> heap" where
  "push_front s header =
     (let free_block_ptr = header;
          s1 = s\<lparr>size_f := (size_f s)(free_block_ptr := size_f s header)\<rparr>;
          s2 = s1\<lparr>next_f := (next_f s1)(free_block_ptr := HEAD s1)\<rparr>
      in s2\<lparr>HEAD := free_block_ptr\<rparr>)"

definition tufree :: "heap \<Rightarrow> addr \<Rightarrow> unit outcome option" where
  "tufree s ptr =
     (if ptr = NULL then Some (Return s ())
      else
        let header = ptr - hdr in
        if int_at s (header + hdr + unat (size_f s header)) = MAGIC_NUMBER then
          (case coalesce (push_front s header) header of
             None \<Rightarrow> None
           | Some (s1, _) \<Rightarrow> Some (Return s1 ()))
        else Some (Abort (fprintf_stderr s ''MEMORY CORRUPTION DETECTED'')))"

text \<open>\<^verbatim>\<open>turealloc\<close> (lines 247-262).\<close>

definition turealloc :: "heap \<Rightarrow> addr \<Rightarrow> size_t \<Rightarrow> addr outcome option" where
  "turealloc s ptr new_size =
     (if ptr = NULL then
        (case tumalloc s new_size of
           None \<Rightarrow> None
         | Some (s1, p) \<Rightarrow> Some (Return s1 p))
      else
        let header = ptr - hdr in
        if size_f s header \<ge> new_size then Some (Return s ptr)
        else
          (case tumalloc s new_size of
             None \<Rightarrow> None
           | Some (s1, new_ptr) \<Rightarrow>
               if new_ptr = NULL then Some (Return s1 NULL)
               else
                 (let s2 = memcpy s1 new_ptr ptr (size_f s1 header) in
                  case tufree s2 ptr of
                    None \<Rightarrow> None
                  | Some (Abort s3) \<Rightarrow> Some (Abort s3)
                  | Some (Return s3 _) \<Rightarrow> Some (Return s3 new_ptr))))"

section \<open>Clients\<close>

text \<open>
  The heap before the first call: no free list, nothing written, the break at \<open>b\<close>,
  an operating system of policy \<open>g\<close>.
\<close>

definition empty_heap :: "addr \<Rightarrow> (addr \<Rightarrow> size_t \<Rightarrow> bool) \<Rightarrow> heap" where
  "empty_heap b g =
     \<lparr>HEAD = NULL, size_f = (\<lambda>_. 0), next_f = (\<lambda>_. NULL), int_at = (\<lambda>_. 0),
      byte_at = (\<lambda>_. 0), brk = b, os_grants = g, sbrk_calls = 0, stderr = []\<rparr>"

text \<open>An operating system that grants every growth that keeps the break below \<open>lim\<close>.\<close>

definition grants_below :: "nat \<Rightarrow> addr \<Rightarrow> size_t \<Rightarrow> bool" where
  "grants_below lim b n \<longleftrightarrow> 0 \<le> sint n \<and> int b + sint n \<le> int lim"

text \<open>
  A client holds the heap, the pointers that the allocating calls have returned so
  far (in order, so that a later call names one by its position) and the pointers
  that are currently allocated. A call releases or reallocates only a pointer that is
  currently allocated.
\<close>

record client =
  mem :: heap
  ptrs :: "addr list"
  live :: "addr list"

datatype call =
    Malloc size_t
  | Calloc size_t size_t
  | Realloc nat size_t
  | Free nat

definition start :: "addr \<Rightarrow> (addr \<Rightarrow> size_t \<Rightarrow> bool) \<Rightarrow> client" where
  "start b g = \<lparr>mem = empty_heap b g, ptrs = [], live = []\<rparr>"

definition allocated :: "client \<Rightarrow> heap \<Rightarrow> addr \<Rightarrow> client" where
  "allocated c s p =
     c\<lparr>mem := s, ptrs := ptrs c @ [p], live := (if p = NULL then live c else live c @ [p])\<rparr>"

fun step :: "client \<Rightarrow> call \<Rightarrow> client option" where
  "step c (Malloc n) =
     (case tumalloc (mem c) n of
        None \<Rightarrow> None
      | Some (s, p) \<Rightarrow> Some (allocated c s p))"
| "step c (Calloc k n) =
     (case tucalloc (mem c) k n of
        None \<Rightarrow> None
      | Some (s, p) \<Rightarrow> Some (allocated c s p))"
| "step c (Realloc i n) =
     (if i < length (ptrs c) \<and> ptrs c ! i \<in> set (live c) then
        (case turealloc (mem c) (ptrs c ! i) n of
           Some (Return s p) \<Rightarrow>
             if p = NULL \<or> p = ptrs c ! i then Some (c\<lparr>mem := s, ptrs := ptrs c @ [p]\<rparr>)
             else Some (allocated (c\<lparr>live := removeAll (ptrs c ! i) (live c)\<rparr>) s p)
         | _ \<Rightarrow> None)
      else None)"
| "step c (Free i) =
     (if i < length (ptrs c) \<and> ptrs c ! i \<in> set (live c) then
        (case tufree (mem c) (ptrs c ! i) of
           Some (Return s _) \<Rightarrow> Some (c\<lparr>mem := s, live := removeAll (ptrs c ! i) (live c)\<rparr>)
         | _ \<Rightarrow> None)
      else None)"

fun run :: "client \<Rightarrow> call list \<Rightarrow> client option" where
  "run c [] = Some c"
| "run c (x # xs) = (case step c x of None \<Rightarrow> None | Some c' \<Rightarrow> run c' xs)"

text \<open>
  The free list as it is met from \<^verbatim>\<open>HEAD\<close> along the \<^verbatim>\<open>next\<close> links: \<open>walk n\<close> gives its
  first \<open>n\<close> headers (all of them when the list ends earlier), \<open>free_list n\<close> gives
  them with their sizes.
\<close>

fun walk :: "nat \<Rightarrow> heap \<Rightarrow> addr \<Rightarrow> addr list" where
  "walk 0 s p = []"
| "walk (Suc n) s p = (if p = NULL then [] else p # walk n s (next_f s p))"

definition free_list :: "nat \<Rightarrow> heap \<Rightarrow> (addr \<times> size_t) list" where
  "free_list n s = map (\<lambda>p. (p, size_f s p)) (walk n s (HEAD s))"

section \<open>Notions used in the statements\<close>

text \<open>
  The address of the sentinel of the block whose payload starts at \<open>ptr\<close>, as line 278
  computes it.
\<close>

definition sentinel_addr :: "heap \<Rightarrow> addr \<Rightarrow> addr" where
  "sentinel_addr s ptr = (ptr - hdr) + hdr + unat (size_f s (ptr - hdr))"

text \<open>
  \<open>store_kept s s'\<close>: the free list, the sentinels, the payload bytes and the fields of
  every header are in \<open>s'\<close> what they are in \<open>s\<close>.
\<close>

definition store_kept :: "heap \<Rightarrow> heap \<Rightarrow> bool" where
  "store_kept s s' \<longleftrightarrow>
     HEAD s' = HEAD s \<and> int_at s' = int_at s \<and> byte_at s' = byte_at s \<and>
     (\<forall>a. a \<noteq> NULL \<longrightarrow> size_f s' a = size_f s a \<and> next_f s' a = next_f s a)"

text \<open>
  Example heaps: the heap after \<^verbatim>\<open>tumalloc(100)\<close> on the empty heap with the break at
  4096 (the block is at 4096, its payload at 4112, its sentinel at 4212), under an
  operating system that grants growth up to the address 65536, and the same heap
  under an operating system that grants nothing more.
\<close>

definition one_block :: heap where
  "one_block = fst (tumalloc_grow (empty_heap 4096 (grants_below 65536)) 100)"

definition one_block_full :: heap where
  "one_block_full = one_block\<lparr>os_grants := (\<lambda>b n. False)\<rparr>"

text \<open>
  \<open>path s p xs q\<close>: from \<open>p\<close> the \<^verbatim>\<open>next\<close> links of \<open>s\<close> lead through the headers \<open>xs\<close>, none
  of them null, to \<open>q\<close>. The free list of \<open>s\<close> is finite when \<open>path s (HEAD s) xs NULL\<close> for
  some \<open>xs\<close>. \<open>block_end\<close> is the address that \<^verbatim>\<open>find_prev\<close> and \<^verbatim>\<open>find_next\<close> compare:
  the address of a block plus its size plus one header. A candidate \<open>fits\<close> a request when
  the scan of \<^verbatim>\<open>tumalloc\<close> takes it (lines 180-181).
\<close>

primrec path :: "heap \<Rightarrow> addr \<Rightarrow> addr list \<Rightarrow> addr \<Rightarrow> bool" where
  "path s p [] q \<longleftrightarrow> p = q"
| "path s p (x # xs) q \<longleftrightarrow> p = x \<and> x \<noteq> NULL \<and> path s (next_f s x) xs q"

definition block_end :: "heap \<Rightarrow> addr \<Rightarrow> addr" where
  "block_end s e = e + unat (size_f s e) + hdr"

definition fits :: "heap \<Rightarrow> size_t \<Rightarrow> addr \<Rightarrow> bool" where
  "fits s r e \<longleftrightarrow> r \<le> size_f s e \<and> \<not> size_f s e < r + sizeof_free_block"






text \<open>
  \<open>take_block s r e prev\<close>: the heap \<open>s\<close> after the free block \<open>e\<close>, whose predecessor in the
  free list is \<open>prev\<close> (null when \<open>e\<close> is the head), has served a request of \<open>r\<close> bytes:
  \<open>e\<close> has the size \<open>r\<close> and a sentinel behind its payload, and the remainder, whose
  header is behind the \<open>r\<close> bytes, has the rest of the size and stands where \<open>e\<close> stood in
  the list.
\<close>

definition take_block :: "heap \<Rightarrow> size_t \<Rightarrow> addr \<Rightarrow> addr \<Rightarrow> heap" where
  "take_block s r e prev =
     (let rest = e + unat r + hdr;
          s1 = s\<lparr>size_f := (size_f s)(rest := size_f s e - r - sizeof_free_block, e := r),
                 next_f := (next_f s)(rest := next_f s e, e := rest)\<rparr>;
          s2 = (if prev \<noteq> NULL then s1\<lparr>next_f := (next_f s1)(prev := rest)\<rparr>
                else s1\<lparr>HEAD := rest\<rparr>)
      in s2\<lparr>int_at := (int_at s2)(e + hdr + unat r := MAGIC_NUMBER)\<rparr>)"

section \<open>Basic facts\<close>

lemma hdr_eq: "hdr = 16"
  by (simp add: hdr_def sizeof_free_block_def)

lemma tumalloc_grow_null:
  "tumalloc_grow s sz = (s', NULL) \<Longrightarrow> store_kept s s'"
  by (auto simp: tumalloc_grow_def do_alloc_def sbrk_def store_kept_def fprintf_stderr_def
      Let_def hdr_eq split: if_splits prod.splits)

lemma split_cases:
  "split s cur k = (s1, header) \<Longrightarrow> (header = NULL \<and> s1 = s) \<or> header = cur"
  by (auto simp: split_def Let_def split: if_splits)

text \<open>A call of \<open>tumalloc\<close> that returns the null pointer has written nothing.\<close>

lemma tumalloc_loop_null:
  assumes "tumalloc_loop s sz cur prev = Some y"
  shows "snd y = NULL \<longrightarrow> store_kept s (fst y)"
proof (rule tumalloc_loop.raw_induct
    [where P = "\<lambda>s sz cur prev y. snd y = NULL \<longrightarrow> store_kept s (fst y)", OF _ assms],
    goal_cases)
  case (1 loop s sz cur prev y)
  show ?case
  proof (cases "cur = NULL")
    case True
    with 1(2) have "tumalloc_grow s sz = y" by simp
    then show ?thesis using tumalloc_grow_null [of s sz "fst y"] by (cases y) auto
  next
    case False
    note nz = this
    show ?thesis
    proof (cases "sz \<le> size_f s cur \<and> \<not> size_f s cur < sz + sizeof_free_block")
      case False
      with nz 1(2) have "loop s sz (next_f s cur) cur = Some y"
        by (auto split: if_splits)
      then show ?thesis by (rule 1(1))
    next
      case True
      obtain s1 header where sp: "split s cur (ucast sz) = (s1, header)"
        by (cases "split s cur (ucast sz)")
      from split_cases [OF sp] show ?thesis
      proof
        assume "header = NULL \<and> s1 = s"
        with nz True 1(2) sp have "y = (fprintf_stderr s ''Split failed in tumalloc'', NULL)"
          by (auto simp: Let_def)
        then show ?thesis by (simp add: store_kept_def fprintf_stderr_def)
      next
        assume "header = cur"
        with nz True 1(2) sp have "snd y = cur + hdr"
          by (auto simp: Let_def)
        then show ?thesis by (simp add: hdr_eq)
      qed
    qed
  qed
qed

lemma tumalloc_null:
  "tumalloc s sz = Some (s', NULL) \<Longrightarrow> store_kept s s'"
  using tumalloc_grow_null [of s sz s'] tumalloc_loop_null [of s sz "HEAD s" NULL "(s', NULL)"]
  by (auto simp: tumalloc_def split: if_splits)









lemma one_block_size: "size_f one_block 4096 = 100"
  by code_simp

lemma one_block_sentinel: "int_at one_block 4212 = MAGIC_NUMBER"
  by code_simp

section \<open>Release\<close>

text \<open>
  C4. Releasing the null pointer changes nothing. For a pointer that is not null,
  \<^verbatim>\<open>tufree\<close> reads the sentinel behind the payload, at the address that the size in the
  header gives. When it is \<^verbatim>\<open>MAGIC_NUMBER\<close>, the block is put at the front of the free
  list (it becomes \<^verbatim>\<open>HEAD\<close>, its link is the old \<^verbatim>\<open>HEAD\<close>, no size changes) and the result
  is that of \<^verbatim>\<open>coalesce\<close> on the block in that heap. When it is any other value, the line
  \<^verbatim>\<open>MEMORY CORRUPTION DETECTED\<close> is written and the process is aborted.
\<close>

theorem tufree_release:
  "tufree s NULL = Some (Return s ()) \<and>
   (ptr \<noteq> NULL \<and> int_at s (sentinel_addr s ptr) = MAGIC_NUMBER \<longrightarrow>
      HEAD (push_front s (ptr - hdr)) = ptr - hdr \<and>
      next_f (push_front s (ptr - hdr)) (ptr - hdr) = HEAD s \<and>
      size_f (push_front s (ptr - hdr)) = size_f s \<and>
      tufree s ptr =
        (case coalesce (push_front s (ptr - hdr)) (ptr - hdr) of
           None \<Rightarrow> None
         | Some (s1, b) \<Rightarrow> Some (Return s1 ()))) \<and>
   (ptr \<noteq> NULL \<and> int_at s (sentinel_addr s ptr) \<noteq> MAGIC_NUMBER \<longrightarrow>
      tufree s ptr =
        Some (Abort (s\<lparr>stderr := stderr s @ [''MEMORY CORRUPTION DETECTED'']\<rparr>)))"
  by (simp add: tufree_def push_front_def sentinel_addr_def fprintf_stderr_def Let_def)

theorem tufree_release_witness:
  "((4112::nat) \<noteq> NULL \<and> int_at one_block (sentinel_addr one_block 4112) = MAGIC_NUMBER) \<and>
   tufree one_block 4112 =
     (case coalesce (push_front one_block (4112 - hdr)) (4112 - hdr) of
        None \<Rightarrow> None
      | Some (s1, b) \<Rightarrow> Some (Return s1 ())) \<and>
   ((4112::nat) \<noteq> NULL \<and>
    int_at (one_block\<lparr>int_at := (\<lambda>a. 0)\<rparr>)
      (sentinel_addr (one_block\<lparr>int_at := (\<lambda>a. 0)\<rparr>) 4112) \<noteq> MAGIC_NUMBER) \<and>
   tufree (one_block\<lparr>int_at := (\<lambda>a. 0)\<rparr>) 4112 =
     Some (Abort (one_block\<lparr>int_at := (\<lambda>a. 0),
       stderr := stderr (one_block\<lparr>int_at := (\<lambda>a. 0)\<rparr>) @ [''MEMORY CORRUPTION DETECTED'']\<rparr>))"
proof -
  have h1: "(4112::nat) \<noteq> NULL \<and> int_at one_block (sentinel_addr one_block 4112) = MAGIC_NUMBER"
    by (simp add: sentinel_addr_def hdr_eq one_block_size one_block_sentinel)
  have h2: "(4112::nat) \<noteq> NULL \<and>
    int_at (one_block\<lparr>int_at := (\<lambda>a. 0)\<rparr>)
      (sentinel_addr (one_block\<lparr>int_at := (\<lambda>a. 0)\<rparr>) 4112) \<noteq> MAGIC_NUMBER"
    by (simp add: MAGIC_NUMBER_def)
  from h1 h2 tufree_release [of one_block 4112]
    tufree_release [of "one_block\<lparr>int_at := (\<lambda>a. 0)\<rparr>" 4112]
  show ?thesis by simp
qed

lemma one_block_full_HEAD: "HEAD one_block_full = NULL"
  by code_simp

lemma one_block_full_size: "size_f one_block_full 4096 = 100"
  by code_simp

lemma one_block_full_grow: "snd (tumalloc_grow one_block_full 200) = NULL"
  by code_simp


section \<open>Reallocation\<close>

text \<open>
  C9. A growing \<^verbatim>\<open>turealloc\<close> (the new size is above the size in the header of the
  block) whose call of \<^verbatim>\<open>tumalloc\<close> returns the null pointer returns the null pointer,
  and the heap it leaves is the one that the failed \<^verbatim>\<open>tumalloc\<close> left: the block has
  its size, the payload bytes and the sentinels are unchanged, and so are \<^verbatim>\<open>HEAD\<close> and
  the link of the block, so the block has not been put on the free list. The pointer
  is one that an allocating call has returned, so its header is not at the null
  address.
\<close>

theorem turealloc_failed_allocation:
  assumes "hdr < ptr"
    and "size_f s (ptr - hdr) < new_size"
    and "tumalloc s new_size = Some (s1, NULL)"
  shows "turealloc s ptr new_size = Some (Return s1 NULL) \<and>
         size_f s1 (ptr - hdr) = size_f s (ptr - hdr) \<and>
         byte_at s1 = byte_at s \<and> int_at s1 = int_at s \<and>
         HEAD s1 = HEAD s \<and> next_f s1 (ptr - hdr) = next_f s (ptr - hdr) \<and>
         store_kept s s1"
proof -
  from assms(3) have k: "store_kept s s1" by (rule tumalloc_null)
  from assms(1) have nz: "ptr \<noteq> NULL" "ptr - hdr \<noteq> NULL" by simp_all
  from assms(2) have "\<not> new_size \<le> size_f s (ptr - hdr)" by simp
  with nz assms(3) have "turealloc s ptr new_size = Some (Return s1 NULL)"
    by (simp add: turealloc_def Let_def)
  with k nz show ?thesis by (simp add: store_kept_def)
qed

theorem turealloc_failed_allocation_witness:
  "hdr < 4112 \<and> size_f one_block_full (4112 - hdr) < 200 \<and>
   tumalloc one_block_full 200 = Some (fst (tumalloc_grow one_block_full 200), NULL) \<and>
   turealloc one_block_full 4112 200 = Some (Return (fst (tumalloc_grow one_block_full 200)) NULL) \<and>
   size_f (fst (tumalloc_grow one_block_full 200)) (4112 - hdr) = size_f one_block_full (4112 - hdr) \<and>
   byte_at (fst (tumalloc_grow one_block_full 200)) = byte_at one_block_full"
proof -
  have h1: "hdr < 4112" by (simp add: hdr_eq)
  have h2: "size_f one_block_full (4112 - hdr) < 200"
    by (simp add: hdr_eq one_block_full_size)
  have h3: "tumalloc one_block_full 200 = Some (fst (tumalloc_grow one_block_full 200), NULL)"
    using one_block_full_grow by (simp add: tumalloc_def one_block_full_HEAD prod_eq_iff)
  from h1 h2 h3 turealloc_failed_allocation [OF h1 h2 h3] show ?thesis by simp
qed





section \<open>Zero-initialised allocation\<close>

text \<open>
  C8. \<^verbatim>\<open>tucalloc\<close> passes the product of its arguments to \<^verbatim>\<open>tumalloc\<close>; the product is
  that of 64-bit words, the product of the numbers modulo \<open>2 ^ 64\<close>, and nothing
  guards it. The block is filled with zeros only when the pointer returned is not
  null, and then every byte of the region of that many bytes is zero.
\<close>

theorem tucalloc_zero_fill:
  "tucalloc s num sz =
     (case tumalloc s (num * sz) of
        None \<Rightarrow> None
      | Some (s1, ptr) \<Rightarrow> Some (if ptr \<noteq> NULL then memset s1 ptr 0 (num * sz) else s1, ptr)) \<and>
   unat (num * sz) = (unat num * unat sz) mod 2 ^ 64 \<and>
   (tucalloc s num sz = Some (s', ptr) \<and> ptr \<noteq> NULL \<longrightarrow>
      (\<forall>i. i < unat (num * sz) \<longrightarrow> byte_at s' (ptr + i) = 0))"
proof (intro conjI impI)
  show "tucalloc s num sz =
     (case tumalloc s (num * sz) of
        None \<Rightarrow> None
      | Some (s1, ptr) \<Rightarrow> Some (if ptr \<noteq> NULL then memset s1 ptr 0 (num * sz) else s1, ptr))"
    by (simp add: tucalloc_def Let_def split: option.splits)
  show "unat (num * sz) = (unat num * unat sz) mod 2 ^ 64"
    by (simp add: unat_word_ariths)
  assume "tucalloc s num sz = Some (s', ptr) \<and> ptr \<noteq> NULL"
  then show "\<forall>i. i < unat (num * sz) \<longrightarrow> byte_at s' (ptr + i) = 0"
    by (auto simp: tucalloc_def Let_def memset_def split: option.splits if_splits)
qed

lemma empty_grow_32:
  "snd (tumalloc_grow (empty_heap 4096 (grants_below 65536)) 32) = 4112"
  by code_simp

lemma empty_tucalloc:
  "tucalloc (empty_heap 4096 (grants_below 65536)) 4 8 =
     Some (memset (fst (tumalloc_grow (empty_heap 4096 (grants_below 65536)) 32)) 4112 0 32, 4112)"
proof -
  have H: "HEAD (empty_heap 4096 (grants_below 65536)) = NULL"
    by (simp add: empty_heap_def)
  have "tumalloc (empty_heap 4096 (grants_below 65536)) 32 =
      Some (fst (tumalloc_grow (empty_heap 4096 (grants_below 65536)) 32), 4112)"
    using empty_grow_32 by (simp add: tumalloc_def H prod_eq_iff)
  then show ?thesis by (simp add: tucalloc_def Let_def)
qed

theorem tucalloc_zero_fill_witness:
  "(tucalloc (empty_heap 4096 (grants_below 65536)) 4 8 =
      Some (memset (fst (tumalloc_grow (empty_heap 4096 (grants_below 65536)) 32)) 4112 0 32, 4112) \<and>
    (4112::nat) \<noteq> NULL) \<and>
   byte_at (memset (fst (tumalloc_grow (empty_heap 4096 (grants_below 65536)) 32)) 4112 0 32)
     (4112 + 31) = 0 \<and>
   unat (2 ^ 63 * 2 :: size_t) = 0"
proof -
  have h: "tucalloc (empty_heap 4096 (grants_below 65536)) 4 8 =
      Some (memset (fst (tumalloc_grow (empty_heap 4096 (grants_below 65536)) 32)) 4112 0 32, 4112) \<and>
    (4112::nat) \<noteq> NULL"
    by (simp add: empty_tucalloc)
  have i: "(31::nat) < unat (4 * 8 :: size_t)" by simp
  from tucalloc_zero_fill [where s = "empty_heap 4096 (grants_below 65536)" and num = 4 and sz = 8
      and s' = "memset (fst (tumalloc_grow (empty_heap 4096 (grants_below 65536)) 32)) 4112 0 32"
      and ptr = 4112] h i
  have "byte_at (memset (fst (tumalloc_grow (empty_heap 4096 (grants_below 65536)) 32)) 4112 0 32)
     (4112 + 31) = 0"
    by blast
  moreover have "unat (2 ^ 63 * 2 :: size_t) = 0" by simp
  ultimately show ?thesis using h by blast
qed

section \<open>Heap extension\<close>

text \<open>
  The function that the layout of lines 145-153 describes does what its comment says:
  when \<^verbatim>\<open>sbrk\<close> succeeds the header at the old break gets the requested size and a null
  link and is returned; when \<^verbatim>\<open>sbrk\<close> fails the result is the null pointer.
\<close>

lemma do_alloc_layout_success:
  "os_grants s (brk s) (sz + sizeof_free_block + sizeof_int) \<Longrightarrow> brk s \<noteq> sbrk_failed \<Longrightarrow>
   do_alloc s sz = (s', b) \<Longrightarrow> b = brk s \<and> size_f s' b = sz \<and> next_f s' b = NULL"
  by (auto simp: do_alloc_def sbrk_def Let_def)

lemma do_alloc_layout_failure:
  "\<not> os_grants s (brk s) (sz + sizeof_free_block + sizeof_int) \<Longrightarrow>
   do_alloc s sz = (s\<lparr>sbrk_calls := Suc (sbrk_calls s)\<rparr>, NULL)"
  by (simp add: do_alloc_def sbrk_def)

text \<open>
  C2. The claim: when the heap-growth primitive succeeds, \<^verbatim>\<open>do_alloc\<close> initialises a
  header at the returned address (the requested size, a null link) and returns it; when
  it fails, \<^verbatim>\<open>do_alloc\<close> returns the null pointer. The text of lines 145-153 does the
  second and not the first: on the empty heap with the break at 4096, a request of 8
  bytes that the operating system grants moves the break to 4124, returns from no
  \<^verbatim>\<open>return\<close> statement and leaves the size field at 4096 as it was; a request that the
  operating system refuses returns the null pointer.
\<close>

theorem do_alloc_as_written_success:
  "snd (do_alloc_as_written (empty_heap 4096 (grants_below 65536)) 8) = None \<and>
   brk (fst (do_alloc_as_written (empty_heap 4096 (grants_below 65536)) 8)) = 4124 \<and>
   size_f (fst (do_alloc_as_written (empty_heap 4096 (grants_below 65536)) 8)) 4096 = 0 \<and>
   snd (do_alloc_as_written (empty_heap 4096 (\<lambda>b n. False)) 8) = Some NULL"
  by code_simp

section \<open>Coalescing\<close>

text \<open>
  C1. The claim: when the block released has a free physically-previous neighbour, the
  neighbour grows by the size of the block plus one header and the free list is linked
  around the absorbed header, so that the absorbed header is no longer an entry of the
  list; the same holds for the next neighbour, and a chain of contiguous free blocks
  becomes one entry. It fails in this run: a block of \<open>2 ^ 33\<close> bytes is obtained and
  released, blocks of 20 and of 19088743 bytes are carved from it (headers at 4096 and
  at 4132), and the first is released. The free list is then 4096, 19092891, and 4096
  ends where 4132 begins. The release of the second block merges the three, but the
  free list is 4132, 4096 afterwards: the absorbed header 4132 is still its first
  entry (\<^verbatim>\<open>coalesce\<close> unlinks the block only where it is the successor of its
  neighbour, and a block just released is the head of the list).

  The size 19088743 is \<^verbatim>\<open>0x01234567\<close>; with it the run is the same if the sentinel of a
  block and the size field of the header that starts at the same address are the same
  bytes, which the split store of this theory does not say.
\<close>

theorem coalesce_keeps_absorbed_header:
  "map_option (\<lambda>c. (live c, walk 5 (mem c) (HEAD (mem c)), size_f (mem c) 4096, size_f (mem c) 4132))
     (run (start 4096 (grants_below (2 ^ 40)))
        [Malloc 8589934592, Free 0, Malloc 20, Malloc 19088743, Free 1])
     = Some ([4148], [4096, 19092891], 20, 19088743) \<and>
   map_option (\<lambda>c. (live c, walk 5 (mem c) (HEAD (mem c))))
     (run (start 4096 (grants_below (2 ^ 40)))
        [Malloc 8589934592, Free 0, Malloc 20, Malloc 19088743, Free 1, Free 2])
     = Some ([], [4132, 4096])"
  by code_simp

section \<open>The free list\<close>

text \<open>
  C3. The claim: in every heap that calls of the four operations reach from the empty
  heap, the free list has no entry twice and has no block that is allocated. It fails
  in this run: a block of \<open>2 ^ 34\<close> bytes is obtained and released, four blocks are
  carved from it (headers at 4096, 4132, 19092891 and 38181650), and the first, the
  third and the second are released, in this order. \<^verbatim>\<open>coalesce\<close> then sets the link of
  4096 to 4096 itself: the free list is 4132, 19092891, 4096, 4096, 4096 and so on.
  A request of 38177486 bytes is then served from 4096: the pointer 4112 is allocated
  and its header 4096 is still met on the free list.
\<close>

theorem free_list_cycle:
  "map_option (\<lambda>c. (live c, walk 5 (mem c) (HEAD (mem c))))
     (run (start 4096 (grants_below (2 ^ 40)))
        [Malloc 17179869184, Free 0, Malloc 20, Malloc 19088743, Malloc 19088743,
         Malloc 19088743, Free 1, Free 3, Free 2])
     = Some ([38181666], [4132, 19092891, 4096, 4096, 4096]) \<and>
   map_option (\<lambda>c. (live c, walk 4 (mem c) (HEAD (mem c))))
     (run (start 4096 (grants_below (2 ^ 40)))
        [Malloc 17179869184, Free 0, Malloc 20, Malloc 19088743, Malloc 19088743,
         Malloc 19088743, Free 1, Free 3, Free 2, Malloc 38177486])
     = Some ([38181666, 4112], [4132, 19092891, 38181598, 4096])"
  by code_simp

section \<open>First fit\<close>

text \<open>
  C5. The claim: \<^verbatim>\<open>tumalloc\<close> skips the candidates whose excess is below one header,
  splits the first candidate with enough excess, leaves the remainder in its place in
  the list and returns the payload of the exact-fit half. It fails in this run: a block
  of \<open>2 ^ 32\<close> bytes is obtained and released, and \<open>2 ^ 31\<close> bytes are requested. The free
  block has excess \<open>2 ^ 31\<close>, but \<^verbatim>\<open>split\<close> takes the request as an \<^verbatim>\<open>int\<close>, a negative
  one, and refuses; \<^verbatim>\<open>tumalloc\<close> writes \<^verbatim>\<open>Split failed in tumalloc\<close> and returns the null
  pointer, the free list is unchanged, and \<^verbatim>\<open>sbrk\<close> is not asked. For requests of less
  than \<open>2 ^ 31\<close> bytes the scan does what the claim says: \<open>tumalloc_first_fit\<close> and
  \<open>take_block_path\<close> in the section on the scan below.
\<close>

theorem split_refuses_large_request:
  "map_option (\<lambda>c. (ptrs c, free_list 3 (mem c), sbrk_calls (mem c), stderr (mem c)))
     (run (start 4096 (grants_below (2 ^ 40))) [Malloc 4294967296, Free 0, Malloc 2147483648])
     = Some ([4112, NULL], [(4096, 4294967296)], 1, [''Split failed in tumalloc''])"
  by code_simp

section \<open>Sizes after a release\<close>





lemma find_next_loop_result:
  assumes "find_next_loop s tgt cur = Some q"
  shows "q = NULL \<or> q = tgt"
proof (rule find_next_loop.raw_induct
    [where P = "\<lambda>s tgt cur q. q = NULL \<or> q = tgt", OF _ assms], goal_cases)
  case (1 loop s tgt cur q)
  then show ?case by (auto split: if_splits)
qed











section \<open>Coalescing against fragmentation\<close>

lemma sint_ucast_small:
  assumes "unat (r :: 64 word) < 2 ^ 31"
  shows "sint (ucast r :: 32 word) = int (unat r)"
proof -
  from assms have "unat r < 2147483648" by simp
  then have "int (unat r) < 2147483648" by linarith
  then have u: "uint r < 2 ^ 31" by simp
  have nn: "0 \<le> uint r" by simp
  have "uint (ucast r :: 32 word) = uint r mod 2 ^ 32"
    by (simp add: unsigned_ucast_eq take_bit_eq_mod)
  also have "\<dots> = uint r" using u by (intro mod_pos_pos_trivial) simp_all
  finally have e: "uint (ucast r :: 32 word) = uint r" .
  have "- (2 ^ 31) \<le> (0::int)" by simp
  from this nn have "- (2 ^ 31) \<le> uint r" by (rule order_trans)
  then have "signed_take_bit 31 (uint r) = uint r"
    using u by (rule signed_take_bit_int_eq_self)
  then have "sint (ucast r :: 32 word) = uint r"
    using e by (simp add: sint_uint)
  then show ?thesis by simp
qed

lemma scast_ucast_small:
  assumes "unat (r :: 64 word) < 2 ^ 31"
  shows "(scast (ucast r :: 32 word) :: 64 word) = r"
  using sint_ucast_small [OF assms] by (simp add: scast_eq)

lemma path_cong:
  "(\<And>x. x \<in> set xs \<Longrightarrow> next_f s' x = next_f s x) \<Longrightarrow> path s' p xs q = path s p xs q"
  by (induction xs arbitrary: p) auto

lemma path_append:
  "path s p (xs @ ys) q \<longleftrightarrow> (\<exists>m. path s p xs m \<and> path s m ys q)"
  by (induction xs arbitrary: p) auto

lemma path_nonnull: "path s p xs q \<Longrightarrow> NULL \<notin> set xs"
  by (induction xs arbitrary: p) auto








subsection \<open>The scan for requests below \<open>2 ^ 31\<close> bytes\<close>

text \<open>
  Let the free list lead through the blocks \<open>ys\<close> to the block \<open>e\<close>, let no block of \<open>ys\<close>
  fit the request and let \<open>e\<close> fit it. Then \<^verbatim>\<open>tumalloc\<close> returns the payload of \<open>e\<close> in
  the heap \<open>take_block\<close>, and in that heap the free list is the one before with the
  remainder in the place of \<open>e\<close>.
\<close>

lemma split_takes:
  assumes "unat r < 2 ^ 31" and "fits s r cur"
  shows "split s cur (ucast r) =
     (s\<lparr>size_f := (size_f s)(cur + unat r + hdr := size_f s cur - r - sizeof_free_block, cur := r),
        next_f := (next_f s)(cur + unat r + hdr := next_f s cur, cur := cur + unat r + hdr)\<rparr>, cur)"
proof -
  have "nat (int cur + sint (ucast r :: 32 word)) = cur + unat r"
    by (simp add: sint_ucast_small [OF assms(1)] nat_add_distrib)
  with assms show ?thesis
    by (simp add: split_def scast_ucast_small fits_def Let_def)
qed

lemma tumalloc_loop_takes:
  assumes "unat r < 2 ^ 31" and "fits s r cur" and "cur \<noteq> NULL"
  shows "tumalloc_loop s r cur prev = Some (take_block s r cur prev, cur + hdr)"
proof -
  from assms(2) have f: "r \<le> size_f s cur" "\<not> size_f s cur < r + sizeof_free_block"
    by (simp_all add: fits_def)
  show ?thesis
    by (subst tumalloc_loop.simps)
       (simp add: assms(3) f split_takes [OF assms(1,2)] Let_def take_block_def hdr_eq)
qed

lemma tumalloc_loop_first_fit:
  "path s cur ys e \<Longrightarrow> e \<noteq> NULL \<Longrightarrow> \<forall>y\<in>set ys. \<not> fits s r y \<Longrightarrow> fits s r e \<Longrightarrow>
   unat r < 2 ^ 31 \<Longrightarrow>
   tumalloc_loop s r cur prev =
     Some (take_block s r e (if ys = [] then prev else last ys), e + hdr)"
proof (induction ys arbitrary: cur prev)
  case Nil
  then show ?case using tumalloc_loop_takes [of r s e prev] by simp
next
  case (Cons y ys)
  then have cy: "cur = y" "y \<noteq> NULL" and rest: "path s (next_f s y) ys e" by simp_all
  from Cons.prems(3) have nf: "\<not> fits s r y" and nfs: "\<forall>y\<in>set ys. \<not> fits s r y" by simp_all
  from nf have "tumalloc_loop s r y prev = tumalloc_loop s r (next_f s y) y"
    by (subst tumalloc_loop.simps) (auto simp: cy fits_def)
  with Cons.IH [OF rest Cons.prems(2) nfs Cons.prems(4,5), of y] cy show ?case by simp
qed

lemma tumalloc_first_fit:
  assumes "path s (HEAD s) ys e" and "e \<noteq> NULL" and "\<forall>y\<in>set ys. \<not> fits s r y"
    and "fits s r e" and "unat r < 2 ^ 31"
  shows "tumalloc s r =
     Some (take_block s r e (if ys = [] then NULL else last ys), e + hdr)"
proof -
  from assms(1,2) have "HEAD s \<noteq> NULL" by (cases ys) auto
  with tumalloc_loop_first_fit [OF assms, of NULL] show ?thesis by (simp add: tumalloc_def)
qed

lemma take_block_path:
  assumes "path s (HEAD s) (ys @ e # zs) NULL" and "distinct (ys @ e # zs)"
    and "e + unat r + hdr \<notin> set (ys @ zs)"
  shows "path (take_block s r e (if ys = [] then NULL else last ys))
           (HEAD (take_block s r e (if ys = [] then NULL else last ys)))
           (ys @ (e + unat r + hdr) # zs) NULL"
proof -
  define rest where "rest = e + unat r + hdr"
  define s' where "s' = take_block s r e (if ys = [] then NULL else last ys)"
  from assms(1) have p1: "path s (HEAD s) ys e" and e0: "e \<noteq> NULL"
    and p2: "path s (next_f s e) zs NULL"
    by (auto simp: path_append)
  have r0: "rest \<noteq> NULL" by (simp add: rest_def hdr_eq)
  have re: "rest \<noteq> e" by (simp add: rest_def hdr_eq)
  from assms(3) have ry: "rest \<notin> set ys" and rz: "rest \<notin> set zs" by (simp_all add: rest_def)
  from assms(2) have ey: "e \<notin> set ys" and ez: "e \<notin> set zs" and dy: "distinct ys"
    and yz: "set ys \<inter> set zs = {}" by auto
  from p1 have ny: "NULL \<notin> set ys" by (rule path_nonnull)
  have "path s' (HEAD s') (ys @ rest # zs) NULL"
  proof (cases "ys = []")
    case True
    then have n: "next_f s' = (next_f s)(rest := next_f s e, e := rest)" and h: "HEAD s' = rest"
      by (simp_all add: s'_def take_block_def Let_def rest_def)
    have "path s' (next_f s e) zs NULL = path s (next_f s e) zs NULL"
      by (rule path_cong) (use rz ez in \<open>auto simp: n\<close>)
    with p2 r0 re True show ?thesis by (simp add: h n)
  next
    case False
    then obtain us l where ys: "ys = us @ [l]" by (metis rev_exhaust)
    with ny have l0: "l \<noteq> NULL" by auto
    from ys False l0 have n: "next_f s' = (next_f s)(rest := next_f s e, e := rest, l := rest)"
      and h: "HEAD s' = HEAD s"
      by (simp_all add: s'_def take_block_def Let_def rest_def)
    from ys ry ey dy yz have lr: "l \<noteq> rest" "l \<noteq> e" "l \<notin> set us" "l \<notin> set zs" by auto
    from p1 ys have pu: "path s (HEAD s) us l" by (auto simp: path_append)
    have "path s' (HEAD s) us l = path s (HEAD s) us l"
      by (rule path_cong) (use ys ry ey lr in \<open>auto simp: n\<close>)
    with pu have a: "path s' (HEAD s) us l" by simp
    have "path s' (next_f s e) zs NULL = path s (next_f s e) zs NULL"
      by (rule path_cong) (use rz ez lr in \<open>auto simp: n\<close>)
    with p2 have b: "path s' (next_f s e) zs NULL" by simp
    from lr re have "next_f s' l = rest" "next_f s' rest = next_f s e" by (simp_all add: n)
    with a b l0 r0 have "path s' (HEAD s') ((us @ [l]) @ rest # zs) NULL"
      unfolding path_append [of s' _ "us @ [l]"] path_append [of s' _ us] h by auto
    then show ?thesis by (simp add: ys)
  qed
  then show ?thesis unfolding s'_def rest_def .
qed

subsection \<open>The two releases\<close>

























end
